theory Spec2Isabelle
  imports Main
begin

section \<open>Thrown values and Error objects\<close>

text \<open>
  Both hooks receive whatever the awaited promise rejects with, or whatever a callee
  throws (\<^verbatim>\<open>catch (error: any)\<close>). A thrown value is an \<^verbatim>\<open>Error\<close> instance
  (with its \<^verbatim>\<open>name\<close> and \<^verbatim>\<open>message\<close>), some other non-nullish value (with its
  \<^verbatim>\<open>name\<close> property, when it has a string one, and the text \<^verbatim>\<open>String(value)\<close> gives
  for it), \<^verbatim>\<open>null\<close> or \<^verbatim>\<open>undefined\<close>.
\<close>

datatype js_error = JsError (err_name: string) (err_message: string)

datatype thrown =
    ThrownError js_error
  | ThrownValue "string option" string
  | ThrownNull
  | ThrownUndefined

text \<open>\<^verbatim>\<open>String(value)\<close>; for an Error instance this is \<^verbatim>\<open>Error.prototype.toString\<close>.\<close>

definition String_of :: "thrown \<Rightarrow> string" where
  "String_of x =
     (case x of
        ThrownError e \<Rightarrow>
          (if err_name e = [] then err_message e
           else if err_message e = [] then err_name e
           else err_name e @ '': '' @ err_message e)
      | ThrownValue n s \<Rightarrow> s
      | ThrownNull \<Rightarrow> ''null''
      | ThrownUndefined \<Rightarrow> ''undefined'')"

definition new_Error :: "string \<Rightarrow> js_error" where
  "new_Error m = JsError ''Error'' m"

text \<open>\<^verbatim>\<open>error instanceof Error ? error : new Error(String(error))\<close>\<close>

definition errorObj_of :: "thrown \<Rightarrow> js_error" where
  "errorObj_of x = (case x of ThrownError e \<Rightarrow> e | _ \<Rightarrow> new_Error (String_of x))"

section \<open>useAsync: the operation controller\<close>

text \<open>
  \<^verbatim>\<open>AsyncState<T>\<close> and \<^verbatim>\<open>UseAsyncConfig<T>\<close> of \<^verbatim>\<open>src/hooks/useAsync.ts\<close>. The two
  callbacks are observers: the model records each call in the hook's trace, and a
  configuration says only whether one is supplied. Numbers are integers
  (milliseconds, counts).
\<close>

record 'v AsyncState =
  data :: "'v option"
  loading :: bool
  error :: "js_error option"
  success :: bool

record UseAsyncConfig =
  onSuccess :: bool
  onError :: bool
  retryCount :: "int option"
  retryDelay :: "int option"
  staleTime :: "int option"
  cacheKey :: "string option"

text \<open>The defaults of the destructuring at the head of \<^verbatim>\<open>useAsync\<close>.\<close>

definition retryCount_of :: "UseAsyncConfig \<Rightarrow> int" where
  "retryCount_of cfg = (case retryCount cfg of None \<Rightarrow> 0 | Some n \<Rightarrow> n)"

definition retryDelay_of :: "UseAsyncConfig \<Rightarrow> int" where
  "retryDelay_of cfg = (case retryDelay cfg of None \<Rightarrow> 1000 | Some n \<Rightarrow> n)"

definition staleTime_of :: "UseAsyncConfig \<Rightarrow> int" where
  "staleTime_of cfg = (case staleTime cfg of None \<Rightarrow> 0 | Some n \<Rightarrow> n)"

text \<open>
  The guards \<^verbatim>\<open>if (cacheKey ...)\<close> test the key for truthiness: an absent key and the
  empty string both fail them.
\<close>

definition truthy_cacheKey :: "UseAsyncConfig \<Rightarrow> string option" where
  "truthy_cacheKey cfg =
     (case cacheKey cfg of None \<Rightarrow> None | Some k \<Rightarrow> if k = [] then None else Some k)"

text \<open>
  What the hook does that an observer can see, in order: a call of the wrapped
  operation with its arguments, a call of a callback, a \<^verbatim>\<open>setTimeout\<close> for a retry
  with its delay.
\<close>

datatype ('a, 'v) effect =
    Invoked "'a list"
  | SuccessCallback 'v
  | ErrorCallback js_error
  | RetryScheduled int

text \<open>
  One hook instance. \<^verbatim>\<open>state\<close> is the React state; \<^verbatim>\<open>abortControllerRef\<close>,
  \<^verbatim>\<open>retryCountRef\<close> and \<^verbatim>\<open>lastArgsRef\<close> are the three refs. An \<^verbatim>\<open>AbortController\<close>
  is an object on the heap: each is named by the number \<^verbatim>\<open>allocated\<close> had when it was
  created, and \<^verbatim>\<open>aborted\<close> holds those whose signal is aborted. \<^verbatim>\<open>cache\<close> is the
  module-level \<^verbatim>\<open>Map\<close>, an entry being the data and its timestamp. \<^verbatim>\<open>awaiting\<close> lists
  the invocations suspended at \<^verbatim>\<open>await asyncFn(...args)\<close>, each by the controller its
  call created; \<^verbatim>\<open>timers\<close> the pending retry timeouts, each by its delay.
\<close>

record ('a, 'v) hook =
  state :: "'v AsyncState"
  abortControllerRef :: "nat option"
  retryCountRef :: int
  lastArgsRef :: "'a list"
  cache :: "string \<rightharpoonup> 'v \<times> int"
  aborted :: "nat set"
  allocated :: nat
  awaiting :: "nat list"
  timers :: "int list"
  trace :: "('a, 'v) effect list"

definition at_rest :: "'v AsyncState" where
  "at_rest = \<lparr>data = None, loading = False, error = None, success = False\<rparr>"

definition useAsync_init :: "(string \<rightharpoonup> 'v \<times> int) \<Rightarrow> ('a, 'v) hook" where
  "useAsync_init c =
     \<lparr>state = at_rest, abortControllerRef = None, retryCountRef = 0, lastArgsRef = [],
      cache = c, aborted = {}, allocated = 0, awaiting = [], timers = [], trace = []\<rparr>"

text \<open>\<^verbatim>\<open>if (abortControllerRef.current) abortControllerRef.current.abort()\<close>\<close>

definition abort_current :: "('a, 'v) hook \<Rightarrow> ('a, 'v) hook" where
  "abort_current h =
     (case abortControllerRef h of
        None \<Rightarrow> h
      | Some c \<Rightarrow> h\<lparr>aborted := insert c (aborted h)\<rparr>)"

text \<open>\<^verbatim>\<open>abortControllerRef.current?.signal.aborted\<close>: it reads the controller the ref holds now.\<close>

definition current_aborted :: "('a, 'v) hook \<Rightarrow> bool" where
  "current_aborted h =
     (case abortControllerRef h of None \<Rightarrow> False | Some c \<Rightarrow> c \<in> aborted h)"

text \<open>
  The cache check of \<^verbatim>\<open>execute\<close>: the cached data when the key is truthy, the
  staleness window positive and the entry younger than the window at time \<^verbatim>\<open>now\<close>.
\<close>

definition fresh_cached :: "UseAsyncConfig \<Rightarrow> int \<Rightarrow> (string \<rightharpoonup> 'v \<times> int) \<Rightarrow> 'v option" where
  "fresh_cached cfg now c =
     (case truthy_cacheKey cfg of
        None \<Rightarrow> None
      | Some k \<Rightarrow>
          if 0 < staleTime_of cfg then
            (case c k of
               None \<Rightarrow> None
             | Some (d, timestamp) \<Rightarrow> if now - timestamp < staleTime_of cfg then Some d else None)
          else None)"

definition emit :: "('a, 'v) effect \<Rightarrow> ('a, 'v) hook \<Rightarrow> ('a, 'v) hook" where
  "emit e h = h\<lparr>trace := trace h @ [e]\<rparr>"

definition call_onSuccess :: "UseAsyncConfig \<Rightarrow> 'v \<Rightarrow> ('a, 'v) hook \<Rightarrow> ('a, 'v) hook" where
  "call_onSuccess cfg v h = (if onSuccess cfg then emit (SuccessCallback v) h else h)"

definition call_onError :: "UseAsyncConfig \<Rightarrow> js_error \<Rightarrow> ('a, 'v) hook \<Rightarrow> ('a, 'v) hook" where
  "call_onError cfg e h = (if onError cfg then emit (ErrorCallback e) h else h)"

text \<open>
  What a call of \<^verbatim>\<open>execute\<close> has done when control leaves it: it returned a value
  (\<^verbatim>\<open>undefined\<close> is \<open>None\<close>), it threw, or it is suspended at its \<^verbatim>\<open>await\<close>.
\<close>

datatype 'v exec_result = Returned "'v option" | Threw js_error | Suspended

text \<open>What the awaited operation settles with.\<close>

datatype 'v settled = Resolved 'v | Rejected thrown

text \<open>
  \<^verbatim>\<open>execute\<close> from its first line to \<^verbatim>\<open>await asyncFn(...args)\<close>: abort the
  controller the ref holds, answer from the cache on a fresh hit, otherwise create a
  controller, store the arguments, set \<^verbatim>\<open>loading\<close> and call the operation.
\<close>

definition execute_start ::
  "UseAsyncConfig \<Rightarrow> int \<Rightarrow> 'a list \<Rightarrow> ('a, 'v) hook \<Rightarrow> 'v exec_result \<times> ('a, 'v) hook" where
  "execute_start cfg now args h =
     (let h1 = abort_current h in
      case fresh_cached cfg now (cache h1) of
        Some d \<Rightarrow>
          (Returned (Some d),
           call_onSuccess cfg d
             (h1\<lparr>state := \<lparr>data = Some d, loading = False, error = None, success = True\<rparr>\<rparr>))
      | None \<Rightarrow>
          (let c = allocated h1;
               h2 = h1\<lparr>abortControllerRef := Some c, allocated := Suc c, lastArgsRef := args\<rparr>;
               h3 = h2\<lparr>state := (state h2)\<lparr>loading := True, error := None, success := False\<rparr>\<rparr>
           in (Suspended, (emit (Invoked args) h3)\<lparr>awaiting := awaiting h3 @ [c]\<rparr>)))"

text \<open>
  \<^verbatim>\<open>execute\<close> from the point where the awaited operation settles, at time \<^verbatim>\<open>now\<close>:
  the rest of the \<^verbatim>\<open>try\<close> block on a result, the \<^verbatim>\<open>catch\<close> block on a rejection.
\<close>

definition execute_settle ::
  "UseAsyncConfig \<Rightarrow> int \<Rightarrow> 'v settled \<Rightarrow> ('a, 'v) hook \<Rightarrow> 'v exec_result \<times> ('a, 'v) hook" where
  "execute_settle cfg now outcome h =
     (case outcome of
        Resolved result \<Rightarrow>
          if current_aborted h then (Returned None, h)
          else
            (let h1 = (case truthy_cacheKey cfg of
                         None \<Rightarrow> h
                       | Some k \<Rightarrow> h\<lparr>cache := (cache h)(k \<mapsto> (result, now))\<rparr>);
                 h2 = h1\<lparr>state := \<lparr>data = Some result, loading = False, error = None, success = True\<rparr>\<rparr>;
                 h3 = call_onSuccess cfg result h2
             in (Returned (Some result), h3\<lparr>retryCountRef := 0\<rparr>))
      | Rejected x \<Rightarrow>
          if current_aborted h then (Returned None, h)
          else
            (let errorObj = errorObj_of x;
                 h1 = h\<lparr>state := (state h)\<lparr>loading := False, error := Some errorObj, success := False\<rparr>\<rparr>;
                 h2 = call_onError cfg errorObj h1;
                 h3 = (if retryCountRef h2 < retryCount_of cfg
                       then (emit (RetryScheduled (retryDelay_of cfg)) h2)
                              \<lparr>retryCountRef := retryCountRef h2 + 1,
                               timers := timers h2 @ [retryDelay_of cfg]\<rparr>
                       else h2)
             in (Threw errorObj, h3)))"

text \<open>\<^verbatim>\<open>retry\<close>, \<^verbatim>\<open>reset\<close>, \<^verbatim>\<open>cancel\<close> and the cleanup on unmount.\<close>

definition retry ::
  "UseAsyncConfig \<Rightarrow> int \<Rightarrow> ('a, 'v) hook \<Rightarrow> 'v exec_result \<times> ('a, 'v) hook" where
  "retry cfg now h = execute_start cfg now (lastArgsRef h) (h\<lparr>retryCountRef := 0\<rparr>)"

definition reset :: "('a, 'v) hook \<Rightarrow> ('a, 'v) hook" where
  "reset h = (abort_current h)\<lparr>state := at_rest, retryCountRef := 0\<rparr>"

definition cancel :: "('a, 'v) hook \<Rightarrow> ('a, 'v) hook" where
  "cancel h = (let h1 = abort_current h in h1\<lparr>state := (state h1)\<lparr>loading := False\<rparr>\<rparr>)"

definition unmount :: "('a, 'v) hook \<Rightarrow> ('a, 'v) hook" where
  "unmount h = abort_current h"

text \<open>
  The callback a retry passes to \<^verbatim>\<open>setTimeout\<close>: \<^verbatim>\<open>execute(...lastArgsRef.current)\<close>,
  with the arguments the ref holds when the timer fires.
\<close>

definition timer_fires ::
  "UseAsyncConfig \<Rightarrow> int \<Rightarrow> ('a, 'v) hook \<Rightarrow> ('a, 'v) hook" where
  "timer_fires cfg now h =
     (case timers h of
        [] \<Rightarrow> h
      | d # ds \<Rightarrow> snd (execute_start cfg now (lastArgsRef h) (h\<lparr>timers := ds\<rparr>)))"

text \<open>
  What happens to a hook, one thing at a time on the single thread: a call of one of
  its functions, the operation of a suspended invocation settling, a retry timer
  firing. \<open>Settle c outcome\<close> resumes the invocation whose call created controller
  \<open>c\<close>; only a suspended invocation can settle.
\<close>

datatype ('a, 'v) occurrence =
    Execute "'a list"
  | Retry
  | Reset
  | Cancel
  | Unmount
  | Settle nat "'v settled"
  | TimerFires

definition step ::
  "UseAsyncConfig \<Rightarrow> int \<times> ('a, 'v) occurrence \<Rightarrow> ('a, 'v) hook \<Rightarrow> ('a, 'v) hook" where
  "step cfg ev h =
     (case ev of (now, oc) \<Rightarrow>
        (case oc of
           Execute args \<Rightarrow> snd (execute_start cfg now args h)
         | Retry \<Rightarrow> snd (retry cfg now h)
         | Reset \<Rightarrow> reset h
         | Cancel \<Rightarrow> cancel h
         | Unmount \<Rightarrow> unmount h
         | Settle c outcome \<Rightarrow>
             if c \<in> set (awaiting h)
             then snd (execute_settle cfg now outcome (h\<lparr>awaiting := removeAll c (awaiting h)\<rparr>))
             else h
         | TimerFires \<Rightarrow> timer_fires cfg now h))"

fun run ::
  "UseAsyncConfig \<Rightarrow> (int \<times> ('a, 'v) occurrence) list \<Rightarrow> ('a, 'v) hook \<Rightarrow> ('a, 'v) hook" where
  "run cfg [] h = h"
| "run cfg (ev # evs) h = run cfg evs (step cfg ev h)"

text \<open>
  Configurations for the examples, with both callbacks: one with a cache key and a
  staleness window and no retries, one with a retry count and delay and no cache.
\<close>

definition keyed_config :: "string \<Rightarrow> int \<Rightarrow> UseAsyncConfig" where
  "keyed_config k w =
     \<lparr>onSuccess = True, onError = True, retryCount = None, retryDelay = None,
      staleTime = Some w, cacheKey = Some k\<rparr>"

definition retrying_config :: "int \<Rightarrow> int \<Rightarrow> UseAsyncConfig" where
  "retrying_config n d =
     \<lparr>onSuccess = True, onError = True, retryCount = Some n, retryDelay = Some d,
      staleTime = None, cacheKey = None\<rparr>"






section \<open>useAIStream: the stream consumer\<close>

text \<open>
  \<^verbatim>\<open>AIStreamConfig\<close>, as far as the read loop uses it: the three callbacks, each named
  by a number so that a runtime override is told from the base configuration's, and
  the chunk parser, which returns a string, returns \<^verbatim>\<open>null\<close> or throws. The request
  description (url, method, headers, body) only feeds \<^verbatim>\<open>fetch\<close>, whose outcome the
  model takes as an input. \<^verbatim>\<open>onError\<close> is \<open>onStreamError\<close> here, and the hook's
  \<^verbatim>\<open>data\<close>, \<^verbatim>\<open>error\<close> and \<^verbatim>\<open>abortControllerRef\<close> are \<open>streamData\<close>, \<open>streamError\<close> and
  \<open>streamControllerRef\<close>: the names are taken by \<^verbatim>\<open>useAsync\<close> above.
\<close>

type_synonym handler = nat

datatype parsed = Parsed string | Skip | ParseThrows thrown

record AIStreamConfig =
  onChunk :: "handler option"
  onComplete :: "handler option"
  onStreamError :: "handler option"
  parseChunk :: "(string \<Rightarrow> parsed) option"

text \<open>\<^verbatim>\<open>{ ...config, ...runtimeConfig }\<close>: a key of the override wins where it is present.\<close>

definition spread :: "'b option \<Rightarrow> 'b option \<Rightarrow> 'b option" where
  "spread base over = (case over of None \<Rightarrow> base | Some v \<Rightarrow> Some v)"

definition mergedConfig :: "AIStreamConfig \<Rightarrow> AIStreamConfig option \<Rightarrow> AIStreamConfig" where
  "mergedConfig config runtimeConfig =
     (case runtimeConfig of
        None \<Rightarrow> config
      | Some r \<Rightarrow>
          \<lparr>onChunk = spread (onChunk config) (onChunk r),
           onComplete = spread (onComplete config) (onComplete r),
           onStreamError = spread (onStreamError config) (onStreamError r),
           parseChunk = spread (parseChunk config) (parseChunk r)\<rparr>)"

datatype stream_effect =
    ChunkCallback handler string
  | CompleteCallback handler string
  | StreamErrorCallback handler js_error

record stream =
  streamData :: string
  isStreaming :: bool
  isComplete :: bool
  streamError :: "js_error option"
  streamControllerRef :: "nat option"
  accumulatedTextRef :: string
  streamAborted :: "nat set"
  streamAllocated :: nat
  streamTrace :: "stream_effect list"

definition useAIStream_init :: stream where
  "useAIStream_init =
     \<lparr>streamData = [], isStreaming = False, isComplete = False, streamError = None,
      streamControllerRef = None, accumulatedTextRef = [], streamAborted = {},
      streamAllocated = 0, streamTrace = []\<rparr>"

definition abort :: "stream \<Rightarrow> stream" where
  "abort s =
     (case streamControllerRef s of
        None \<Rightarrow> s
      | Some c \<Rightarrow>
          s\<lparr>streamAborted := insert c (streamAborted s), streamControllerRef := None,
            isStreaming := False\<rparr>)"

definition stream_reset :: "stream \<Rightarrow> stream" where
  "stream_reset s =
     (abort s)\<lparr>streamData := [], streamError := None, isComplete := False,
              accumulatedTextRef := []\<rparr>"

definition call_onChunk :: "AIStreamConfig \<Rightarrow> string \<Rightarrow> stream \<Rightarrow> stream" where
  "call_onChunk cfg chunk s =
     (case onChunk cfg of
        None \<Rightarrow> s
      | Some f \<Rightarrow> s\<lparr>streamTrace := streamTrace s @ [ChunkCallback f chunk]\<rparr>)"

definition call_onComplete :: "AIStreamConfig \<Rightarrow> string \<Rightarrow> stream \<Rightarrow> stream" where
  "call_onComplete cfg fullText s =
     (case onComplete cfg of
        None \<Rightarrow> s
      | Some f \<Rightarrow> s\<lparr>streamTrace := streamTrace s @ [CompleteCallback f fullText]\<rparr>)"

definition call_onStreamError :: "AIStreamConfig \<Rightarrow> js_error \<Rightarrow> stream \<Rightarrow> stream" where
  "call_onStreamError cfg e s =
     (case onStreamError cfg of
        None \<Rightarrow> s
      | Some f \<Rightarrow> s\<lparr>streamTrace := streamTrace s @ [StreamErrorCallback f e]\<rparr>)"

text \<open>
  What \<^verbatim>\<open>await fetch(...)\<close> gives: a response (\<^verbatim>\<open>ok\<close>, \<^verbatim>\<open>status\<close>, whether
  \<^verbatim>\<open>body?.getReader()\<close> is a reader) or a rejection; and what each
  \<^verbatim>\<open>await reader.read()\<close> gives: a chunk (as the decoder returns it), the end of the
  data or a rejection.
\<close>

datatype fetch_outcome = FetchResolved bool nat bool | FetchRejected thrown

datatype read_outcome = ReadChunk string | ReadDone | ReadRejected thrown

text \<open>
  How control leaves the \<^verbatim>\<open>try\<close> block: suspended at an \<^verbatim>\<open>await\<close> whose outcome has
  not come yet, through \<^verbatim>\<open>break\<close>, or with a thrown value.
\<close>

datatype loop_exit = AwaitingRead | Finished | Raised thrown

text \<open>The promise \<^verbatim>\<open>startStream\<close> returned.\<close>

datatype stream_result = Pending | Fulfilled | RejectedWith js_error

fun digits :: "nat \<Rightarrow> string" where
  "digits n =
     (if n < 10 then [char_of (48 + n)]
      else digits (n div 10) @ [char_of (48 + n mod 10)])"

text \<open>\<^verbatim>\<open>startStream\<close> up to \<^verbatim>\<open>await fetch(...)\<close>.\<close>

definition startStream_begin ::
  "AIStreamConfig \<Rightarrow> AIStreamConfig option \<Rightarrow> stream \<Rightarrow> AIStreamConfig \<times> stream" where
  "startStream_begin config runtimeConfig s =
     (let c = streamAllocated s in
      (mergedConfig config runtimeConfig,
       s\<lparr>streamData := [], streamError := None, isStreaming := True, isComplete := False,
         accumulatedTextRef := [], streamControllerRef := Some c,
         streamAllocated := Suc c\<rparr>))"

text \<open>From the outcome of \<^verbatim>\<open>fetch\<close> to the head of the read loop.\<close>

definition fetch_settled :: "fetch_outcome \<Rightarrow> loop_exit" where
  "fetch_settled out =
     (case out of
        FetchRejected x \<Rightarrow> Raised x
      | FetchResolved ok status readable \<Rightarrow>
          if \<not> ok then Raised (ThrownError (new_Error (''HTTP error! status: '' @ digits status)))
          else if \<not> readable then Raised (ThrownError (new_Error ''Response body is not readable''))
          else AwaitingRead)"

text \<open>
  \<^verbatim>\<open>processedChunk\<close>: the chunk itself when no parser is configured, otherwise what
  the parser makes of it.
\<close>

definition processed :: "AIStreamConfig \<Rightarrow> string \<Rightarrow> parsed" where
  "processed cfg chunk = (case parseChunk cfg of None \<Rightarrow> Parsed chunk | Some f \<Rightarrow> f chunk)"

text \<open>
  The read loop, over the outcomes of the successive \<^verbatim>\<open>reader.read()\<close> calls. It
  stops at the end of the data and at the first thrown value; the outcomes left are
  never read.
\<close>

fun read_loop :: "AIStreamConfig \<Rightarrow> read_outcome list \<Rightarrow> stream \<Rightarrow> loop_exit \<times> stream" where
  "read_loop cfg [] s = (AwaitingRead, s)"
| "read_loop cfg (ReadRejected x # rs) s = (Raised x, s)"
| "read_loop cfg (ReadDone # rs) s =
     (Finished,
      call_onComplete cfg (accumulatedTextRef s) (s\<lparr>isComplete := True, isStreaming := False\<rparr>))"
| "read_loop cfg (ReadChunk chunk # rs) s =
     (case processed cfg chunk of
        ParseThrows x \<Rightarrow> (Raised x, s)
      | Skip \<Rightarrow> read_loop cfg rs s
      | Parsed processedChunk \<Rightarrow>
          read_loop cfg rs
            (call_onChunk cfg processedChunk
               (s\<lparr>accumulatedTextRef := accumulatedTextRef s @ processedChunk,
                  streamData := accumulatedTextRef s @ processedChunk\<rparr>)))"

text \<open>
  The \<^verbatim>\<open>catch\<close> block. It reads \<^verbatim>\<open>err.name\<close> first, which itself throws a TypeError
  when \<^verbatim>\<open>err\<close> is \<^verbatim>\<open>null\<close> or \<^verbatim>\<open>undefined\<close>; that TypeError leaves \<^verbatim>\<open>startStream\<close>.
\<close>

definition nullish :: "thrown \<Rightarrow> bool" where
  "nullish x = (case x of ThrownNull \<Rightarrow> True | ThrownUndefined \<Rightarrow> True | _ \<Rightarrow> False)"

definition name_is_AbortError :: "thrown \<Rightarrow> bool" where
  "name_is_AbortError x =
     (case x of
        ThrownError e \<Rightarrow> err_name e = ''AbortError''
      | ThrownValue n s \<Rightarrow> n = Some ''AbortError''
      | _ \<Rightarrow> False)"

definition name_TypeError :: "thrown \<Rightarrow> js_error" where
  "name_TypeError x =
     JsError ''TypeError''
       (''Cannot read properties of '' @ String_of x @ '' (reading 'name')'')"

definition stream_catch :: "AIStreamConfig \<Rightarrow> thrown \<Rightarrow> stream \<Rightarrow> stream_result \<times> stream" where
  "stream_catch cfg err s =
     (if nullish err then (RejectedWith (name_TypeError err), s)
      else if \<not> name_is_AbortError err then
        (let errorObj = errorObj_of err
         in (Fulfilled,
             call_onStreamError cfg errorObj
               (s\<lparr>streamError := Some errorObj, isStreaming := False\<rparr>)))
      else (Fulfilled, s))"

text \<open>The \<^verbatim>\<open>finally\<close> block.\<close>

definition stream_finally :: "stream \<Rightarrow> stream" where
  "stream_finally s = s\<lparr>streamControllerRef := None\<rparr>"

definition startStream_leave ::
  "AIStreamConfig \<Rightarrow> loop_exit \<times> stream \<Rightarrow> stream_result \<times> stream" where
  "startStream_leave cfg es =
     (case es of (e, s) \<Rightarrow>
        (case e of
           AwaitingRead \<Rightarrow> (Pending, s)
         | Finished \<Rightarrow> (Fulfilled, stream_finally s)
         | Raised x \<Rightarrow> (case stream_catch cfg x s of (r, s') \<Rightarrow> (r, stream_finally s'))))"

text \<open>
  A suspended \<^verbatim>\<open>startStream\<close> resumed with the next read outcomes, under the merged
  configuration its call captured.
\<close>

definition startStream_resume ::
  "AIStreamConfig \<Rightarrow> read_outcome list \<Rightarrow> stream \<Rightarrow> stream_result \<times> stream" where
  "startStream_resume cfg reads s = startStream_leave cfg (read_loop cfg reads s)"

text \<open>The same, resumed with the outcome of \<^verbatim>\<open>fetch\<close> and the read outcomes after it.\<close>

definition startStream_connect ::
  "AIStreamConfig \<Rightarrow> fetch_outcome \<Rightarrow> read_outcome list \<Rightarrow> stream \<Rightarrow> stream_result \<times> stream" where
  "startStream_connect cfg out reads s =
     (case fetch_settled out of
        AwaitingRead \<Rightarrow> startStream_resume cfg reads s
      | e \<Rightarrow> startStream_leave cfg (e, s))"

text \<open>One call of \<^verbatim>\<open>startStream\<close>, run as far as the outcomes given reach.\<close>

definition startStream ::
  "AIStreamConfig \<Rightarrow> AIStreamConfig option \<Rightarrow> fetch_outcome \<Rightarrow> read_outcome list \<Rightarrow> stream
     \<Rightarrow> stream_result \<times> stream" where
  "startStream config runtimeConfig out reads s =
     (case startStream_begin config runtimeConfig s of
        (cfg, s1) \<Rightarrow> startStream_connect cfg out reads s1)"

text \<open>
  What \<^verbatim>\<open>fetch\<close> and \<^verbatim>\<open>reader.read()\<close> reject with once the signal passed to
  \<^verbatim>\<open>fetch\<close> is aborted: a \<^verbatim>\<open>DOMException\<close> named AbortError, an Error instance,
  with a message of the platform's choice.
\<close>

definition AbortError :: "string \<Rightarrow> thrown" where
  "AbortError msg = ThrownError (JsError ''AbortError'' msg)"




text \<open>
  A configuration for the examples: the three callbacks, and a parser for lines
  \<^verbatim>\<open>data: ...\<close> that skips the end marker, throws a SyntaxError on a line without
  the prefix and otherwise returns what follows the prefix.
\<close>

definition sse_parser :: "string \<Rightarrow> parsed" where
  "sse_parser c =
     (if c = ''data: [DONE]'' then Skip
      else if take 6 c = ''data: '' then Parsed (drop 6 c)
      else ParseThrows (ThrownError (JsError ''SyntaxError'' ''Unexpected token'')))"

definition sse_config :: AIStreamConfig where
  "sse_config =
     \<lparr>onChunk = Some 1, onComplete = Some 2, onStreamError = Some 3,
      parseChunk = Some sse_parser\<rparr>"

fun is_terminal_callback :: "stream_effect \<Rightarrow> bool" where
  "is_terminal_callback (ChunkCallback f c) = False"
| "is_terminal_callback e = True"

section \<open>Properties of useAsync\<close>


text \<open>
  After \<open>cancel\<close> or \<open>reset\<close> the ref still holds the controller they aborted, so
  an operation that settles next is dropped: the call returns \<^verbatim>\<open>undefined\<close> and
  changes nothing.
\<close>

lemma cancelled_result_is_dropped:
  assumes "abortControllerRef h \<noteq> None"
  shows "execute_settle cfg now outcome (cancel h) = (Returned None, cancel h)"
    and "execute_settle cfg now outcome (reset h) = (Returned None, reset h)"
  using assms
  by (auto simp: execute_settle_def cancel_def reset_def abort_current_def current_aborted_def
      Let_def split: settled.splits option.splits)

text \<open>
  C1. Two calls of \<open>execute\<close>, the second before the first settles. The claim is that
  the final state, the cache and the callbacks reflect the second call only, and that
  the superseded call's completion changes nothing. The code's check after the
  \<^verbatim>\<open>await\<close> reads the controller the ref holds now, which is the second call's and is
  not aborted; so the first call's result is applied. Below, call 1 (controller 0)
  settles with 10 after call 2 (controller 1) has settled with 20: the state, the
  cache entry and the last callback are call 1's. When call 1 settles first, it
  already writes state and cache and fires the callback while call 2 is pending.
\<close>

theorem C1_superseded_result_is_applied:
  "(let cfg = keyed_config ''k'' 1000;
        h = run cfg
              [(0, Execute [1]), (1, Execute [2]),
               (2, Settle 1 (Resolved 20)), (3, Settle 0 (Resolved 10))]
              (useAsync_init Map.empty :: (nat, nat) hook);
        h' = run cfg
              [(0, Execute [1]), (1, Execute [2]), (2, Settle 0 (Resolved 10))]
              (useAsync_init Map.empty :: (nat, nat) hook)
    in state h = \<lparr>data = Some 10, loading = False, error = None, success = True\<rparr>
     \<and> cache h ''k'' = Some (10, 3)
     \<and> trace h = [Invoked [1], Invoked [2], SuccessCallback 20, SuccessCallback 10]
     \<and> abortControllerRef h = Some 1 \<and> 0 \<in> aborted h \<and> 1 \<notin> aborted h
     \<and> awaiting h' = [1]
     \<and> state h' = \<lparr>data = Some 10, loading = False, error = None, success = True\<rparr>
     \<and> cache h' ''k'' = Some (10, 2)
     \<and> trace h' = [Invoked [1], Invoked [2], SuccessCallback 10])"
  unfolding Let_def
  by (simp add: step_def execute_start_def execute_settle_def abort_current_def
      current_aborted_def fresh_cached_def truthy_cacheKey_def staleTime_of_def
      call_onSuccess_def emit_def useAsync_init_def at_rest_def keyed_config_def Let_def)

text \<open>
  C2. A call that finds a fresh cache entry. As stated, for every configured cache
  key, the claim fails for the empty string (\<open>[]\<close> below): the guards test the key
  for truthiness, so nothing is stored under it and the second call, one millisecond
  after the first succeeded, invokes the operation again.
\<close>

theorem C2_empty_key_counterexample:
  "(let cfg = keyed_config [] 1000;
        h0 = snd (execute_start cfg 0 [] (useAsync_init Map.empty :: (nat, nat) hook));
        first = execute_settle cfg 5 (Resolved 7) h0;
        second = execute_start cfg 6 [] (snd first)
    in fst first = Returned (Some 7) \<and> fst second = Suspended
     \<and> trace (snd second) = [Invoked [], SuccessCallback 7, Invoked []])"
  unfolding Let_def
  by (simp add: execute_start_def execute_settle_def abort_current_def
      current_aborted_def fresh_cached_def truthy_cacheKey_def staleTime_of_def
      call_onSuccess_def emit_def useAsync_init_def at_rest_def keyed_config_def Let_def)

text \<open>
  C2, amended: with a non-empty cache key \<open>k\<close> and a staleness window \<open>W > 0\<close>, when a
  call of \<open>execute\<close> succeeds with \<open>v\<close> at time \<open>t1\<close> and the next call comes at a time
  \<open>t2\<close> with \<open>t2 - t1 < W\<close>, that call returns \<open>v\<close> at once, sets the state to success
  with \<open>v\<close>, fires the success callback with \<open>v\<close> and nothing else: the operation is not
  invoked, no invocation is suspended, no controller is created.
\<close>

theorem C2_fresh_hit_returns_cached:
  assumes key: "cacheKey cfg = Some k" "k \<noteq> []"
      and window: "staleTime cfg = Some W" "0 < W"
      and first: "fst (execute_settle cfg t1 (Resolved v) h) = Returned (Some v)"
      and soon: "t2 - t1 < W"
  shows "(let h1 = snd (execute_settle cfg t1 (Resolved v) h);
              second = execute_start cfg t2 args h1
          in fst second = Returned (Some v)
           \<and> state (snd second) = \<lparr>data = Some v, loading = False, error = None, success = True\<rparr>
           \<and> trace (snd second) = trace h1 @ (if onSuccess cfg then [SuccessCallback v] else [])
           \<and> awaiting (snd second) = awaiting h1
           \<and> allocated (snd second) = allocated h1
           \<and> abortControllerRef (snd second) = abortControllerRef h1)"
proof -
  have live: "\<not> current_aborted h"
    using first by (auto simp: execute_settle_def split: if_splits)
  have tk: "truthy_cacheKey cfg = Some k"
    using key by (simp add: truthy_cacheKey_def)
  have st: "staleTime_of cfg = W"
    using window by (simp add: staleTime_of_def)
  let ?h1 = "snd (execute_settle cfg t1 (Resolved v) h)"
  have c1: "cache ?h1 k = Some (v, t1)"
    using live tk by (simp add: execute_settle_def call_onSuccess_def emit_def Let_def)
  have "cache (abort_current ?h1) = cache ?h1"
    by (simp add: abort_current_def split: option.splits)
  then have hit: "fresh_cached cfg t2 (cache (abort_current ?h1)) = Some v"
    using c1 tk st window soon by (simp add: fresh_cached_def)
  have frame: "trace (abort_current ?h1) = trace ?h1" "awaiting (abort_current ?h1) = awaiting ?h1"
    "allocated (abort_current ?h1) = allocated ?h1"
    "abortControllerRef (abort_current ?h1) = abortControllerRef ?h1"
    by (simp_all add: abort_current_def split: option.splits)
  show ?thesis
    using hit frame by (simp add: execute_start_def call_onSuccess_def emit_def Let_def)
qed

theorem C2_fresh_hit_witness:
  "(let cfg = keyed_config ''k'' 1000;
        h0 = snd (execute_start cfg 0 [] (useAsync_init Map.empty :: (nat, nat) hook));
        first = execute_settle cfg 5 (Resolved 7) h0;
        second = execute_start cfg 1004 [] (snd first)
    in fst first = Returned (Some 7) \<and> fst second = Returned (Some 7)
     \<and> trace (snd second) = [Invoked [], SuccessCallback 7, SuccessCallback 7])"
  using C2_fresh_hit_returns_cached
    [of "keyed_config ''k'' 1000" "''k''" 1000 5 "7::nat"
        "snd (execute_start (keyed_config ''k'' 1000) 0 []
               (useAsync_init Map.empty :: (nat, nat) hook))" 1004 "[]"]
  unfolding Let_def
  by (simp add: execute_start_def execute_settle_def abort_current_def
      current_aborted_def fresh_cached_def truthy_cacheKey_def staleTime_of_def
      call_onSuccess_def emit_def useAsync_init_def at_rest_def keyed_config_def Let_def)








text \<open>
  C5. \<open>retry\<close> on a hook that has never run. The claim makes it a no-op returning
  nothing; the code resets the counter and calls \<open>execute\<close> with the arguments
  \<^verbatim>\<open>lastArgsRef\<close> holds, which are the empty list at first: the operation is invoked
  with no arguments and the state goes to loading.
\<close>

theorem C5_retry_invokes_counterexample:
  "(let r = retry (retrying_config 0 1000) 0 (useAsync_init Map.empty :: (nat, nat) hook)
    in fst r = Suspended
     \<and> trace (snd r) = [Invoked []]
     \<and> state (snd r) = \<lparr>data = None, loading = True, error = None, success = False\<rparr>
     \<and> abortControllerRef (snd r) = Some 0)"
  unfolding Let_def
  by (simp add: retry_def execute_start_def abort_current_def fresh_cached_def
      truthy_cacheKey_def retrying_config_def useAsync_init_def at_rest_def emit_def Let_def)

text \<open>
  C5, amended: on a hook on which no invocation has occurred, \<open>retry\<close> is \<open>execute\<close>
  with an empty argument list; unless a fresh cache entry answers the call, it creates
  a controller, sets \<^verbatim>\<open>loading\<close> and invokes the operation with no arguments, and the
  call stays suspended on it.
\<close>

theorem C5_retry_is_execute_without_arguments:
  "retry cfg now (useAsync_init c0 :: ('a, 'v) hook)
     = execute_start cfg now [] (useAsync_init c0)
   \<and> (fresh_cached cfg now c0 = None \<longrightarrow>
        fst (retry cfg now (useAsync_init c0 :: ('a, 'v) hook)) = Suspended
      \<and> trace (snd (retry cfg now (useAsync_init c0 :: ('a, 'v) hook))) = [Invoked []]
      \<and> state (snd (retry cfg now (useAsync_init c0 :: ('a, 'v) hook)))
           = \<lparr>data = None, loading = True, error = None, success = False\<rparr>
      \<and> abortControllerRef (snd (retry cfg now (useAsync_init c0 :: ('a, 'v) hook))) = Some 0
      \<and> awaiting (snd (retry cfg now (useAsync_init c0 :: ('a, 'v) hook))) = [0])"
  by (simp add: retry_def execute_start_def abort_current_def useAsync_init_def at_rest_def
      emit_def Let_def)

theorem C5_retry_is_execute_witness:
  "fresh_cached (keyed_config ''k'' 1000) 5000 [''k'' \<mapsto> (3::nat, 0)] = None
   \<and> fst (retry (keyed_config ''k'' 1000) 5000
            (useAsync_init [''k'' \<mapsto> (3::nat, 0)] :: (nat, nat) hook)) = Suspended
   \<and> trace (snd (retry (keyed_config ''k'' 1000) 5000
            (useAsync_init [''k'' \<mapsto> (3::nat, 0)] :: (nat, nat) hook))) = [Invoked []]"
proof -
  have miss: "fresh_cached (keyed_config ''k'' 1000) 5000 [''k'' \<mapsto> (3::nat, 0)] = None"
    by (simp add: fresh_cached_def truthy_cacheKey_def staleTime_of_def keyed_config_def)
  from C5_retry_is_execute_without_arguments
    [of "keyed_config ''k'' 1000" 5000 "[''k'' \<mapsto> (3::nat, 0)]"] miss
  show ?thesis by blast
qed

text \<open>
  C6. A call of \<open>execute\<close> that finds a fresh cache entry. The claim has it cancel
  nothing: cancellation would come only on a miss, after the cache is consulted. The
  code aborts the controller the ref holds in its first statement, before it looks at
  the cache. Below, the invocation under controller 1 is suspended when a third call
  finds a fresh entry: the call returns the cached value, controller 1 is aborted, and
  when its operation resolves later the result is dropped.
\<close>

theorem C6_hit_aborts_in_flight_counterexample:
  "(let cfg = keyed_config ''k'' 1000;
        h = run cfg
              [(0, Execute [1]), (1, Execute [2]), (2, Settle 0 (Resolved 10))]
              (useAsync_init Map.empty :: (nat, nat) hook);
        r = execute_start cfg 3 [3] h;
        late = execute_settle cfg 4 (Resolved 20) (snd r)
    in awaiting h = [1] \<and> abortControllerRef h = Some 1 \<and> 1 \<notin> aborted h
     \<and> fresh_cached cfg 3 (cache h) = Some 10
     \<and> fst r = Returned (Some 10)
     \<and> awaiting (snd r) = [1] \<and> 1 \<in> aborted (snd r)
     \<and> fst late = Returned None
     \<and> data (state (snd late)) = Some 10)"
  unfolding Let_def
  by (simp add: step_def execute_start_def execute_settle_def abort_current_def
      current_aborted_def fresh_cached_def truthy_cacheKey_def staleTime_of_def
      call_onSuccess_def emit_def useAsync_init_def at_rest_def keyed_config_def Let_def)

text \<open>
  C6, amended: every call of \<open>execute\<close> first aborts the controller the ref holds,
  whether or not the cache then answers. On a fresh hit no controller is created: the
  ref, the number of controllers, the suspended invocations and the stored arguments
  are as before, and the call returns the cached value. When the ref held a
  controller, an operation that settles next, with a result or a failure, finds that
  controller aborted: the call returns \<^verbatim>\<open>undefined\<close> and changes nothing.
\<close>

theorem C6_hit_mints_no_token_but_aborts:
  fixes h :: "('a, 'v) hook"
  shows "aborted (snd (execute_start cfg now args h))
           = aborted h \<union> set_option (abortControllerRef h)
       \<and> (fresh_cached cfg now (cache h) = Some d \<longrightarrow>
            fst (execute_start cfg now args h) = Returned (Some d)
          \<and> abortControllerRef (snd (execute_start cfg now args h)) = abortControllerRef h
          \<and> allocated (snd (execute_start cfg now args h)) = allocated h
          \<and> awaiting (snd (execute_start cfg now args h)) = awaiting h
          \<and> lastArgsRef (snd (execute_start cfg now args h)) = lastArgsRef h
          \<and> (abortControllerRef h \<noteq> None \<longrightarrow>
                execute_settle cfg later outcome (snd (execute_start cfg now args h))
                  = (Returned None, snd (execute_start cfg now args h))))"
proof -
  have frame: "cache (abort_current h) = cache h"
    "abortControllerRef (abort_current h) = abortControllerRef h"
    "allocated (abort_current h) = allocated h" "awaiting (abort_current h) = awaiting h"
    "lastArgsRef (abort_current h) = lastArgsRef h"
    "aborted (abort_current h) = aborted h \<union> set_option (abortControllerRef h)"
    by (simp_all add: abort_current_def split: option.splits)
  have discard: "execute_settle cfg later outcome g = (Returned None, g)"
    if "current_aborted g" for g :: "('a, 'v) hook"
    using that by (simp add: execute_settle_def split: settled.splits)
  have "current_aborted (snd (execute_start cfg now args h))"
    if "fresh_cached cfg now (cache h) = Some d" "abortControllerRef h \<noteq> None"
    using that frame
    by (auto simp: execute_start_def call_onSuccess_def emit_def current_aborted_def
        abort_current_def Let_def split: option.splits)
  from discard [OF this] show ?thesis
    using frame
    by (simp add: execute_start_def call_onSuccess_def emit_def Let_def split: option.splits)
qed

theorem C6_hit_mints_no_token_witness:
  "(let cfg = keyed_config ''k'' 1000;
        h = run cfg [(0, Execute [1]), (5, Settle 0 (Resolved 10))]
              (useAsync_init Map.empty :: (nat, nat) hook)
    in fresh_cached cfg 500 (cache h) = Some 10
     \<and> abortControllerRef h = Some 0 \<and> 0 \<notin> aborted h
     \<and> fst (execute_start cfg 500 [3] h) = Returned (Some 10)
     \<and> abortControllerRef (snd (execute_start cfg 500 [3] h)) = Some 0
     \<and> allocated (snd (execute_start cfg 500 [3] h)) = 1
     \<and> 0 \<in> aborted (snd (execute_start cfg 500 [3] h))
     \<and> fst (execute_settle cfg 600 (Resolved 20) (snd (execute_start cfg 500 [3] h)))
         = Returned None)"
proof -
  let ?cfg = "keyed_config ''k'' 1000"
  let ?h = "run ?cfg [(0, Execute [1]), (5, Settle 0 (Resolved 10))]
              (useAsync_init Map.empty :: (nat, nat) hook)"
  have facts: "cache ?h ''k'' = Some (10, 5)" "abortControllerRef ?h = Some 0"
    "0 \<notin> aborted ?h" "allocated ?h = 1"
    by (simp_all add: step_def execute_start_def execute_settle_def abort_current_def
      current_aborted_def fresh_cached_def truthy_cacheKey_def staleTime_of_def
      call_onSuccess_def emit_def useAsync_init_def at_rest_def keyed_config_def Let_def)
  have hit: "fresh_cached ?cfg 500 (cache ?h) = Some 10"
    by (simp add: step_def execute_start_def execute_settle_def abort_current_def
      current_aborted_def fresh_cached_def truthy_cacheKey_def staleTime_of_def
      call_onSuccess_def emit_def useAsync_init_def at_rest_def keyed_config_def Let_def)
  from C6_hit_mints_no_token_but_aborts [of ?cfg 500 "[3]" ?h 10 600 "Resolved 20"] hit facts
  show ?thesis unfolding Let_def by simp
qed



section \<open>Properties of useAIStream\<close>







text \<open>
  A read loop that is still waiting for a read has set no error, has not completed,
  has left \<^verbatim>\<open>isStreaming\<close> and the controller ref alone, and has called neither the
  completion nor the error callback.
\<close>

lemma read_loop_awaiting:
  assumes "fst (read_loop cfg reads s) = AwaitingRead"
  shows "streamError (snd (read_loop cfg reads s)) = streamError s
       \<and> isComplete (snd (read_loop cfg reads s)) = isComplete s
       \<and> isStreaming (snd (read_loop cfg reads s)) = isStreaming s
       \<and> streamControllerRef (snd (read_loop cfg reads s)) = streamControllerRef s
       \<and> streamAllocated (snd (read_loop cfg reads s)) = streamAllocated s
       \<and> filter is_terminal_callback (streamTrace (snd (read_loop cfg reads s)))
           = filter is_terminal_callback (streamTrace s)"
  using assms
proof (induction cfg reads s rule: read_loop.induct)
  case (4 cfg chunk rs s)
  show ?case
  proof (cases "processed cfg chunk")
    case (Parsed p)
    with 4 show ?thesis
      by (simp add: call_onChunk_def split: option.splits)
  next
    case Skip
    with 4 show ?thesis by simp
  next
    case (ParseThrows x)
    with 4 show ?thesis by simp
  qed
qed simp_all

text \<open>
  A call of \<open>startStream\<close> suspended at an \<^verbatim>\<open>await\<close>, on \<^verbatim>\<open>fetch\<close> or on a read
  after the response came and some reads were processed, in the state that very call
  left: the ref holds the call's own controller. \<open>abort\<close> then leaves the error
  \<open>None\<close>, \<^verbatim>\<open>isComplete\<close> false and \<^verbatim>\<open>isStreaming\<close> false, keeps the accumulated text
  and \<^verbatim>\<open>data\<close>, and calls no callback; the pending \<^verbatim>\<open>await\<close> then rejects with the
  AbortError, which the \<^verbatim>\<open>catch\<close> block passes over: the call ends, the state is
  what \<open>abort\<close> left, and from the start of the stream to its end neither the
  completion nor the error callback was called.
\<close>

lemma abort_is_silent_while_ref_held:
  fixes s0 :: stream
  assumes progress: "fst (startStream config runtimeConfig out reads s0) = Pending"
  shows "(let s1 = snd (startStream config runtimeConfig out reads s0);
              s2 = abort s1
          in streamError s2 = None \<and> isComplete s2 = False \<and> isStreaming s2 = False
           \<and> isStreaming s1 = True
           \<and> accumulatedTextRef s2 = accumulatedTextRef s1 \<and> streamData s2 = streamData s1
           \<and> streamTrace s2 = streamTrace s1
           \<and> filter is_terminal_callback (streamTrace s2)
               = filter is_terminal_callback (streamTrace s0)
           \<and> startStream_resume (mergedConfig config runtimeConfig) [ReadRejected (AbortError msg)] s2
               = (Fulfilled, s2))
       \<and> (let c1 = snd (startStream_begin config runtimeConfig s0);
              c2 = abort c1
          in streamError c2 = None \<and> isComplete c2 = False \<and> isStreaming c2 = False
           \<and> isStreaming c1 = True
           \<and> accumulatedTextRef c2 = accumulatedTextRef c1 \<and> streamData c2 = streamData c1
           \<and> streamTrace c2 = streamTrace s0
           \<and> startStream_connect (mergedConfig config runtimeConfig) (FetchRejected (AbortError msg))
                reads c2
               = (Fulfilled, c2))"
proof -
  let ?cfg = "mergedConfig config runtimeConfig"
  let ?b = "snd (startStream_begin config runtimeConfig s0)"
  have b: "streamError ?b = None" "isComplete ?b = False" "isStreaming ?b = True"
    "streamControllerRef ?b = Some (streamAllocated s0)" "streamTrace ?b = streamTrace s0"
    by (simp_all add: startStream_begin_def Let_def)
  have conn: "fetch_settled out = AwaitingRead"
    using progress
    by (auto simp: startStream_def startStream_begin_def startStream_connect_def
        startStream_leave_def stream_catch_def Let_def
        split: loop_exit.splits prod.splits if_splits)
  then have run: "startStream config runtimeConfig out reads s0
      = startStream_leave ?cfg (read_loop ?cfg reads ?b)"
    by (simp add: startStream_def startStream_begin_def startStream_connect_def
        startStream_resume_def Let_def)
  have aw: "fst (read_loop ?cfg reads ?b) = AwaitingRead"
    using progress unfolding run
    by (cases "read_loop ?cfg reads ?b")
       (auto simp: startStream_leave_def stream_catch_def Let_def
          split: loop_exit.splits prod.splits if_splits)
  then have s1: "snd (startStream config runtimeConfig out reads s0) = snd (read_loop ?cfg reads ?b)"
    unfolding run by (cases "read_loop ?cfg reads ?b") (simp add: startStream_leave_def)
  note keep = read_loop_awaiting [OF aw]
  have first: "let s1 = snd (startStream config runtimeConfig out reads s0);
              s2 = abort s1
          in streamError s2 = None \<and> isComplete s2 = False \<and> isStreaming s2 = False
           \<and> isStreaming s1 = True
           \<and> accumulatedTextRef s2 = accumulatedTextRef s1 \<and> streamData s2 = streamData s1
           \<and> streamTrace s2 = streamTrace s1
           \<and> filter is_terminal_callback (streamTrace s2)
               = filter is_terminal_callback (streamTrace s0)
           \<and> startStream_resume ?cfg [ReadRejected (AbortError msg)] s2 = (Fulfilled, s2)"
    unfolding Let_def s1 using keep b
    by (simp add: abort_def startStream_resume_def startStream_leave_def stream_catch_def
        stream_finally_def nullish_def name_is_AbortError_def AbortError_def)
  have second: "let c1 = ?b; c2 = abort c1
          in streamError c2 = None \<and> isComplete c2 = False \<and> isStreaming c2 = False
           \<and> isStreaming c1 = True
           \<and> accumulatedTextRef c2 = accumulatedTextRef c1 \<and> streamData c2 = streamData c1
           \<and> streamTrace c2 = streamTrace s0
           \<and> startStream_connect ?cfg (FetchRejected (AbortError msg)) reads c2 = (Fulfilled, c2)"
    unfolding Let_def using b
    by (simp add: abort_def startStream_connect_def fetch_settled_def startStream_leave_def
        stream_catch_def stream_finally_def nullish_def name_is_AbortError_def AbortError_def)
  from first second show ?thesis by blast
qed

lemma abort_is_silent_example:
  "(let s1 = snd (startStream sse_config None (FetchResolved True 200 True)
                    [ReadChunk ''data: a''] useAIStream_init);
        s2 = abort s1
    in fst (startStream sse_config None (FetchResolved True 200 True)
              [ReadChunk ''data: a''] useAIStream_init) = Pending
     \<and> streamControllerRef s1 = Some 0 \<and> isStreaming s1 = True
     \<and> streamError s2 = None \<and> isComplete s2 = False \<and> isStreaming s2 = False
     \<and> streamData s2 = ''a'' \<and> streamTrace s2 = [ChunkCallback 1 ''a'']
     \<and> 0 \<in> streamAborted s2
     \<and> startStream_resume (mergedConfig sse_config None) [ReadRejected (AbortError ''The user aborted a request.'')] s2
         = (Fulfilled, s2))"
proof -
  let ?run = "startStream sse_config None (FetchResolved True 200 True)
                [ReadChunk ''data: a''] useAIStream_init"
  have run: "?run =
      (Pending,
       \<lparr>streamData = ''a'', isStreaming = True, isComplete = False, streamError = None,
        streamControllerRef = Some 0, accumulatedTextRef = ''a'', streamAborted = {},
        streamAllocated = Suc 0, streamTrace = [ChunkCallback 1 ''a'']\<rparr>)"
    by (simp add: startStream_def startStream_begin_def startStream_connect_def
        startStream_resume_def startStream_leave_def fetch_settled_def call_onChunk_def
        mergedConfig_def processed_def sse_config_def sse_parser_def useAIStream_init_def
        Let_def)
  then have p: "fst ?run = Pending" by simp
  from abort_is_silent_while_ref_held [OF p, of "''The user aborted a request.''"] p
  show ?thesis
    unfolding Let_def run by (simp add: abort_def)
qed

text \<open>
  C7. The claim is for every stream in progress: \<open>abort\<close> ends it silently, with
  \<^verbatim>\<open>isStreaming\<close> false and no completion callback. \<open>abort\<close> works through the one
  ref the hook has, and the \<^verbatim>\<open>finally\<close> block of every call of \<open>startStream\<close> sets
  that ref to \<^verbatim>\<open>null\<close>, whichever call's controller it holds. Below, a first stream
  is aborted and a second one started at once (controller 1); the first call's
  pending read then rejects with its AbortError and its \<^verbatim>\<open>finally\<close> block clears the
  ref. The second stream gets its response and a chunk and is in progress, but
  \<open>abort\<close> now finds no controller and does nothing: \<^verbatim>\<open>isStreaming\<close> stays true,
  controller 1 is not aborted, the stream reads on to its end, \<^verbatim>\<open>isComplete\<close>
  becomes true and the completion callback is called.
\<close>

theorem C7_abort_after_restart_is_a_no_op:
  "(let ok = FetchResolved True 200 True;
        first = snd (startStream sse_config None ok [ReadChunk ''data: a''] useAIStream_init);
        stopped = abort first;
        second = snd (startStream_begin sse_config None stopped);
        ended = startStream_resume sse_config
                  [ReadRejected (AbortError ''The user aborted a request.'')] second;
        running = startStream_connect sse_config ok [ReadChunk ''data: b''] (snd ended);
        aborted2 = abort (snd running);
        finished = startStream_resume sse_config [ReadChunk ''data: c'', ReadDone] aborted2
    in streamControllerRef second = Some 1
     \<and> fst ended = Fulfilled \<and> streamControllerRef (snd ended) = None
     \<and> fst running = Pending \<and> isStreaming (snd running) = True
     \<and> aborted2 = snd running
     \<and> isStreaming aborted2 = True \<and> 1 \<notin> streamAborted aborted2
     \<and> fst finished = Fulfilled
     \<and> isComplete (snd finished) = True
     \<and> streamData (snd finished) = ''bc''
     \<and> streamTrace (snd finished)
         = [ChunkCallback 1 ''a'', ChunkCallback 1 ''b'', ChunkCallback 1 ''c'',
            CompleteCallback 2 ''bc''])"
  unfolding Let_def
  by (simp add: startStream_def startStream_begin_def startStream_connect_def
      startStream_resume_def startStream_leave_def stream_catch_def stream_finally_def
      fetch_settled_def call_onChunk_def call_onComplete_def mergedConfig_def abort_def
      nullish_def name_is_AbortError_def AbortError_def processed_def
      sse_config_def sse_parser_def useAIStream_init_def Let_def)

text \<open>
  A stream that fails while reading. For a thrown value that is neither
  \<^verbatim>\<open>null\<close> nor \<^verbatim>\<open>undefined\<close> and is not named AbortError, the \<^verbatim>\<open>catch\<close> block stores
  the error object, clears \<^verbatim>\<open>isStreaming\<close> and calls the error callback; the
  \<^verbatim>\<open>finally\<close> block clears the controller ref; the accumulated text, \<^verbatim>\<open>data\<close> and
  \<^verbatim>\<open>isComplete\<close> are not touched.
\<close>

lemma stream_failure_frame:
  assumes "\<not> nullish x" "\<not> name_is_AbortError x"
  shows "startStream_resume cfg (ReadRejected x # rs) s
           = (Fulfilled,
              s\<lparr>streamError := Some (errorObj_of x), isStreaming := False,
                streamControllerRef := None,
                streamTrace := streamTrace s @
                  (case onStreamError cfg of
                     None \<Rightarrow> []
                   | Some f \<Rightarrow> [StreamErrorCallback f (errorObj_of x)])\<rparr>)"
  using assms
  by (simp add: startStream_resume_def startStream_leave_def stream_catch_def
      stream_finally_def call_onStreamError_def Let_def split: option.splits)

text \<open>
  C10. A stream that fails mid-read keeps its accumulated text, and the error exposed
  is an Error instance, a thrown value that is not one being wrapped by
  \<^verbatim>\<open>new Error(String(value))\<close>, as \<^verbatim>\<open>useAsync\<close> does. In \<^verbatim>\<open>useAIStream\<close> the
  \<^verbatim>\<open>catch\<close> block reads \<^verbatim>\<open>err.name\<close> before it wraps, and for \<^verbatim>\<open>undefined\<close> (or
  \<^verbatim>\<open>null\<close>) that read throws. Below, a read rejects with \<^verbatim>\<open>undefined\<close> after one
  chunk: \<open>startStream\<close> rejects with the TypeError, no error is stored, the error
  callback is not called and \<^verbatim>\<open>isStreaming\<close> stays true; the same value in
  \<^verbatim>\<open>useAsync\<close> is stored as \<^verbatim>\<open>Error("undefined")\<close>.
\<close>

theorem C10_undefined_rejection_not_wrapped:
  "(let r = startStream sse_config None (FetchResolved True 200 True)
              [ReadChunk ''data: a'', ReadRejected ThrownUndefined] useAIStream_init;
        h = snd (execute_start (retrying_config 0 1000) 0 []
                   (useAsync_init Map.empty :: (nat, nat) hook));
        a = execute_settle (retrying_config 0 1000) 1 (Rejected ThrownUndefined) h
    in fst r = RejectedWith
                 (JsError ''TypeError'' ''Cannot read properties of undefined (reading 'name')'')
     \<and> streamError (snd r) = None
     \<and> isStreaming (snd r) = True
     \<and> streamData (snd r) = ''a''
     \<and> streamTrace (snd r) = [ChunkCallback 1 ''a'']
     \<and> fst a = Threw (JsError ''Error'' ''undefined'')
     \<and> error (state (snd a)) = Some (JsError ''Error'' ''undefined''))"
  unfolding Let_def
  by (simp add: startStream_def startStream_begin_def startStream_connect_def
      startStream_resume_def startStream_leave_def stream_catch_def stream_finally_def
      fetch_settled_def call_onChunk_def mergedConfig_def nullish_def name_TypeError_def
      String_of_def processed_def sse_config_def sse_parser_def useAIStream_init_def
      execute_start_def execute_settle_def abort_current_def current_aborted_def
      fresh_cached_def truthy_cacheKey_def retryCount_of_def call_onError_def emit_def
      errorObj_of_def new_Error_def retrying_config_def useAsync_init_def at_rest_def Let_def)

end
